theory Spec2Isabelle
  imports
    Complex_Main
    "HOL-Library.Log_Nat"
    "HOL-Library.Multiset"
    "HOL-Library.AList"
    "HOL-Library.Char_ord"
    "HOL-Library.List_Lexorder"
begin

section \<open>JavaScript numbers\<close>

text \<open>
  Every number of the program is an IEEE-754 binary64 value. A finite one is the rational it
  denotes; an arithmetic operation returns the exact result rounded to the nearest value with
  a 53-bit significand, ties to the even significand (\<open>fl\<close>). The exponent is not bounded
  here: the program divides and multiplies pixel counts, landmark counts and the constants 1
  and 100, far inside the range of binary64. Signed zero is not distinguished.
\<close>

definition round_half_even :: "rat \<Rightarrow> int" where
  "round_half_even v =
     (let f = \<lfloor>v\<rfloor>; d = v - of_int f
      in if d < 1 / 2 then f else if 1 / 2 < d then f + 1 else if even f then f else f + 1)"

text \<open>\<open>ilog2 v\<close> is the integer \<open>k\<close> with \<open>2 powi k \<le> v < 2 powi (k + 1)\<close>, for \<open>0 < v\<close>.\<close>

definition ilog2 :: "rat \<Rightarrow> int" where
  "ilog2 v = (let (p, q) = quotient_of v; d = bitlen p - bitlen q
              in if 2 powi d \<le> v then d else d - 1)"

definition fl :: "rat \<Rightarrow> rat" where
  "fl v = (if v = 0 then 0
           else let e = ilog2 \<bar>v\<bar> - 52
                in of_int (round_half_even (v / 2 powi e)) * 2 powi e)"

datatype jsnum = Num rat | PosInf | NegInf | NaN

text \<open>\<open>a / b\<close> on finite operands.\<close>

definition js_div :: "rat \<Rightarrow> rat \<Rightarrow> jsnum" where
  "js_div a b =
     (if b \<noteq> 0 then Num (fl (a / b))
      else if a = 0 then NaN else if 0 < a then PosInf else NegInf)"

text \<open>\<open>a * b\<close> with a finite right operand.\<close>

fun js_mul :: "jsnum \<Rightarrow> rat \<Rightarrow> jsnum" where
  "js_mul (Num a) b = Num (fl (a * b))"
| "js_mul PosInf b = (if b = 0 then NaN else if 0 < b then PosInf else NegInf)"
| "js_mul NegInf b = (if b = 0 then NaN else if 0 < b then NegInf else PosInf)"
| "js_mul NaN b = NaN"

text \<open>\<open>Math.round\<close>: the nearest integer, a tie going towards plus infinity.\<close>

fun Math_round :: "jsnum \<Rightarrow> jsnum" where
  "Math_round (Num a) = Num (of_int \<lfloor>a + 1 / 2\<rfloor>)"
| "Math_round PosInf = PosInf"
| "Math_round NegInf = NegInf"
| "Math_round NaN = NaN"

text \<open>\<open>a >= b\<close> with a finite right operand; every comparison with \<open>NaN\<close> is false.\<close>

fun js_ge :: "jsnum \<Rightarrow> rat \<Rightarrow> bool" where
  "js_ge (Num a) b = (b \<le> a)"
| "js_ge PosInf b = True"
| "js_ge NegInf b = False"
| "js_ge NaN b = False"


section \<open>Data model (types.ts)\<close>

text \<open>
  Field names are those of the interfaces, prefixed where two interfaces share a name.
  A timestamp is the string \<open>new Date().toISOString()\<close>; it is modelled by the instant it
  denotes, in milliseconds since the epoch, which is what \<open>new Date(timestamp).getTime()\<close>
  gives back.
\<close>

record Rect =
  rect_x :: nat
  rect_y :: nat
  width :: nat
  height :: nat

record LandmarkTemplate =
  template_name :: string
  templatePath :: string
  template_region :: Rect
  threshold :: rat

datatype WebcamSource = Image string | Hls string

record LocationConfig =
  config_location :: string
  config_region :: string
  source :: WebcamSource
  landmarks :: "LandmarkTemplate list"

record LandmarkDetail =
  name :: string
  visible :: bool
  similarity :: rat

datatype FogLevel = Clear | Light | Moderate | Heavy

text \<open>
  The object that \<open>analyzeFogLevel\<close> builds has every field of \<open>VisibilityResult\<close> except
  \<open>region\<close>; \<open>VisibilityResult\<close> is that record extended by the region key.
\<close>

record LocationAnalysis =
  location :: string
  landmarksVisible :: nat
  totalLandmarks :: nat
  visibilityScore :: jsnum
  fogLevel :: FogLevel
  timestamp :: int
  landmarkDetails :: "LandmarkDetail list"

record VisibilityResult = LocationAnalysis +
  region :: string

record RegionEntry =
  entry_fogLevel :: FogLevel
  entry_visibilityScore :: jsnum
  entry_landmarksVisible :: nat
  entry_totalLandmarks :: nat

record HistoricalReading =
  reading_timestamp :: int
  regions :: "(string \<times> RegionEntry) list"

record RegionStatus =
  status_region :: string
  status_fogLevel :: FogLevel
  status_visibilityScore :: jsnum
  status_timestamp :: int
  status_landmarks :: "LandmarkDetail list"

record RangeData =
  startDate :: string
  endDate :: string
  totalDays :: nat
  lastUpdated :: int


section \<open>fog-detector.ts\<close>

text \<open>
  The image libraries are outside the repository. \<open>pixelmatch env buf region path\<close> stands
  for the pipeline of \<open>checkLandmarkVisibility\<close> up to the call of pixelmatch: extract
  \<open>landmark.region\<close> from the webcam image, load the template at \<open>landmark.templatePath\<close>,
  grey-scale and normalise both, and count the mismatching pixels; \<open>None\<close> when a step
  throws. \<open>readConfig\<close> is \<open>fs.readFile\<close> followed by \<open>JSON.parse\<close> of the location's
  config file.
\<close>

record 'img env =
  readConfig :: "string \<Rightarrow> LocationConfig option"
  fetchWebcamImage :: "WebcamSource \<Rightarrow> 'img option"
  pixelmatch :: "'img \<Rightarrow> Rect \<Rightarrow> string \<Rightarrow> nat option"

record LandmarkCheck =
  check_visible :: bool
  check_similarity :: rat

text \<open>\<open>1 - diff / totalPixels\<close> with \<open>totalPixels = width * height\<close>\<close>

definition rawSimilarity :: "nat \<Rightarrow> Rect \<Rightarrow> rat" where
  "rawSimilarity diff r =
     (let totalPixels = fl (of_nat (width r) * of_nat (height r))
      in fl (1 - fl (of_nat diff / totalPixels)))"

text \<open>\<open>Math.round(similarity * 100) / 100\<close>\<close>

definition reportedSimilarity :: "rat \<Rightarrow> rat" where
  "reportedSimilarity sim = fl (of_int \<lfloor>fl (sim * 100) + 1 / 2\<rfloor> / 100)"

text \<open>An empty region makes the extraction throw, so \<open>totalPixels\<close> is positive at the division.\<close>

definition checkLandmarkVisibility ::
  "'img env \<Rightarrow> 'img \<Rightarrow> LandmarkTemplate \<Rightarrow> LandmarkCheck option" where
  "checkLandmarkVisibility env webcamBuffer landmark =
     (if width (template_region landmark) = 0 \<or> height (template_region landmark) = 0 then None
      else case pixelmatch env webcamBuffer (template_region landmark) (templatePath landmark) of
        None \<Rightarrow> None
      | Some diff \<Rightarrow>
          let sim = rawSimilarity diff (template_region landmark)
          in Some \<lparr>check_visible = (threshold landmark \<le> sim),
                   check_similarity = reportedSimilarity sim\<rparr>)"

definition getFogLevel :: "jsnum \<Rightarrow> FogLevel" where
  "getFogLevel score =
     (if js_ge score 80 then Clear
      else if js_ge score 50 then Light
      else if js_ge score 20 then Moderate
      else Heavy)"

datatype analysis_error = ConfigError | FetchError | LandmarkError

text \<open>The loop over \<open>config.landmarks\<close>; a failing comparison ends the analysis.\<close>

fun checkLandmarks ::
  "'img env \<Rightarrow> 'img \<Rightarrow> LandmarkTemplate list \<Rightarrow> nat \<Rightarrow> LandmarkDetail list
     \<Rightarrow> (nat \<times> LandmarkDetail list) option" where
  "checkLandmarks env webcamBuffer [] visibleCount details = Some (visibleCount, details)"
| "checkLandmarks env webcamBuffer (landmark # rest) visibleCount details =
     (case checkLandmarkVisibility env webcamBuffer landmark of
        None \<Rightarrow> None
      | Some result \<Rightarrow>
          checkLandmarks env webcamBuffer rest
            (if check_visible result then visibleCount + 1 else visibleCount)
            (details @ [\<lparr>name = template_name landmark,
                          visible = check_visible result,
                          similarity = check_similarity result\<rparr>]))"

definition analyzeFogLevel ::
  "'img env \<Rightarrow> int \<Rightarrow> string \<Rightarrow> analysis_error + LocationAnalysis" where
  "analyzeFogLevel env now locationName =
     (case readConfig env locationName of
        None \<Rightarrow> Inl ConfigError
      | Some config \<Rightarrow>
         (case fetchWebcamImage env (source config) of
            None \<Rightarrow> Inl FetchError
          | Some webcamBuffer \<Rightarrow>
             (case checkLandmarks env webcamBuffer (landmarks config) 0 [] of
                None \<Rightarrow> Inl LandmarkError
              | Some (visibleCount, details) \<Rightarrow>
                  let score = js_mul (js_div (of_nat visibleCount)
                                             (of_nat (length (landmarks config)))) 100
                  in Inr \<lparr>location = config_location config,
                          landmarksVisible = visibleCount,
                          totalLandmarks = length (landmarks config),
                          visibilityScore = Math_round score,
                          fogLevel = getFogLevel score,
                          timestamp = now,
                          landmarkDetails = details\<rparr>)))"


section \<open>check-fog.ts: grouping the results by region\<close>

text \<open>
  \<open>regionMap\<close> is the \<open>Map\<close> built by \<open>regionMap.set(result.region, result)\<close>: an
  association list in insertion order, where setting a key that is present replaces its value
  in place.
\<close>

definition regionMap :: "VisibilityResult list \<Rightarrow> (string \<times> VisibilityResult) list" where
  "regionMap results = fold (\<lambda>result m. AList.update (region result) result m) results []"

text \<open>The per-region endpoints: the file name and the \<open>RegionStatus\<close> written to it.\<close>

definition regionEndpoints :: "VisibilityResult list \<Rightarrow> (string \<times> RegionStatus) list" where
  "regionEndpoints results =
     map (\<lambda>(key, result).
            (key, \<lparr>status_region = key,
                   status_fogLevel = fogLevel result,
                   status_visibilityScore = visibilityScore result,
                   status_timestamp = timestamp result,
                   status_landmarks = landmarkDetails result\<rparr>))
         (regionMap results)"

text \<open>The collection endpoint.\<close>

definition allRegions :: "VisibilityResult list \<Rightarrow> RegionStatus list" where
  "allRegions results =
     map (\<lambda>result. \<lparr>status_region = region result,
                      status_fogLevel = fogLevel result,
                      status_visibilityScore = visibilityScore result,
                      status_timestamp = timestamp result,
                      status_landmarks = landmarkDetails result\<rparr>)
         (map snd (regionMap results))"


section \<open>check-fog.ts: the history directory\<close>

text \<open>
  A file of \<open>api/history\<close> is read with \<open>fs.readFile\<close> and \<open>JSON.parse\<close>: \<open>Corrupt\<close> when
  one of the two throws, \<open>Daily hours\<close> for an object with an \<open>hours\<close> array, and the rollup
  and the range metadata, which parse but have no \<open>hours\<close>. The directory is the list of its
  entries in \<open>readdir\<close> order.
\<close>

datatype content =
    Corrupt
  | Daily "HistoricalReading option list"
  | Recent "HistoricalReading list"
  | Range RangeData

type_synonym dir = "(string \<times> content) list"

definition readdir :: "dir \<Rightarrow> string list" where
  "readdir history = map fst history"

definition writeFile :: "string \<Rightarrow> content \<Rightarrow> dir \<Rightarrow> dir" where
  "writeFile file c history = AList.update file c history"

definition unlink :: "string \<Rightarrow> dir \<Rightarrow> dir" where
  "unlink file history = AList.delete file history"

text \<open>
  \<open>Date\<close> belongs to the platform and is a parameter: \<open>isoDate api t\<close> is
  \<open>new Date(t).toISOString().split("T")[0]\<close>, and \<open>dateTime api f\<close> is
  \<open>new Date(f).getTime()\<close>, \<open>None\<close> for \<open>NaN\<close>.
\<close>

record date_api =
  isoDate :: "int \<Rightarrow> string"
  dateTime :: "string \<Rightarrow> int option"

definition getUTCHours :: "int \<Rightarrow> nat" where
  "getUTCHours t = nat ((t mod 86400000) div 3600000)"

definition SEVEN_DAYS_MS :: int where
  "SEVEN_DAYS_MS = 7 * 24 * 60 * 60 * 1000"

definition isDigit :: "char \<Rightarrow> bool" where
  "isDigit c = (c \<in> set ''0123456789'')"

text \<open>The test \<open>/^\d{4}-\d{2}-\d{2}$/\<close>.\<close>

definition isDateFile :: "string \<Rightarrow> bool" where
  "isDateFile f =
     (length f = 10 \<and> list_all isDigit (take 4 f) \<and> f ! 4 = CHR ''-''
      \<and> list_all isDigit (take 2 (drop 5 f)) \<and> f ! 7 = CHR ''-''
      \<and> list_all isDigit (drop 8 f))"

text \<open>\<open>data.hours.filter((r) => r !== null)\<close>\<close>

definition validReadings :: "HistoricalReading option list \<Rightarrow> HistoricalReading list" where
  "validReadings hours = map the (filter (\<lambda>r. r \<noteq> None) hours)"

text \<open>
  The loop over \<open>recentFiles\<close>. \<open>None\<close> is an exception: a file that cannot be read or
  parsed, or a parsed value without \<open>hours\<close>.
\<close>

fun readRecentFiles ::
  "dir \<Rightarrow> string list \<Rightarrow> HistoricalReading list \<Rightarrow> HistoricalReading list option" where
  "readRecentFiles history [] allReadings = Some allReadings"
| "readRecentFiles history (file # files) allReadings =
     (case map_of history file of
        Some (Daily hours) \<Rightarrow> readRecentFiles history files (allReadings @ validReadings hours)
      | _ \<Rightarrow> None)"

definition recentFiles :: "date_api \<Rightarrow> int \<Rightarrow> dir \<Rightarrow> string list" where
  "recentFiles api now history =
     (let cutoffTime = now - SEVEN_DAYS_MS
      in sort (filter (\<lambda>f. case dateTime api f of None \<Rightarrow> False | Some t \<Rightarrow> cutoffTime \<le> t)
                 (filter isDateFile (readdir history))))"

text \<open>
  The whole body is inside one \<open>try\<close>; the \<open>catch\<close> logs and returns, so a failure leaves
  the directory as it was.
\<close>

definition generateRecentFile :: "date_api \<Rightarrow> int \<Rightarrow> dir \<Rightarrow> dir" where
  "generateRecentFile api now history =
     (case readRecentFiles history (recentFiles api now history) [] of
        None \<Rightarrow> history
      | Some allReadings \<Rightarrow>
          writeFile ''recent'' (Recent (sort_key reading_timestamp allReadings)) history)"

definition rangeData :: "int \<Rightarrow> string list \<Rightarrow> RangeData" where
  "rangeData now dateFiles =
     \<lparr>startDate = hd dateFiles, endDate = last dateFiles,
      totalDays = length dateFiles, lastUpdated = now\<rparr>"

definition updateHistoricalRange :: "int \<Rightarrow> dir \<Rightarrow> dir" where
  "updateHistoricalRange now history =
     (let dateFiles = sort (filter isDateFile (readdir history))
      in if dateFiles = [] then history
         else writeFile ''index'' (Range (rangeData now dateFiles)) history)"

text \<open>
  \<open>dailyData.hours[hour] = newReading\<close>: an index past the end extends the array, and the
  holes are written as \<open>null\<close>.
\<close>

definition setHour ::
  "HistoricalReading option list \<Rightarrow> nat \<Rightarrow> HistoricalReading \<Rightarrow> HistoricalReading option list"
  where
  "setHour hours hour reading =
     (if hour < length hours then hours[hour := Some reading]
      else hours @ replicate (hour - length hours) None @ [Some reading])"

text \<open>\<open>results[0]?.timestamp || new Date().toISOString()\<close>\<close>

definition readingTimestamp :: "int \<Rightarrow> VisibilityResult list \<Rightarrow> int" where
  "readingTimestamp now results = (case results of [] \<Rightarrow> now | result # _ \<Rightarrow> timestamp result)"

definition newReading :: "int \<Rightarrow> VisibilityResult list \<Rightarrow> HistoricalReading" where
  "newReading ts results =
     \<lparr>reading_timestamp = ts,
      regions = fold (\<lambda>result m. AList.update (region result)
                          \<lparr>entry_fogLevel = fogLevel result,
                           entry_visibilityScore = visibilityScore result,
                           entry_landmarksVisible = landmarksVisible result,
                           entry_totalLandmarks = totalLandmarks result\<rparr> m)
                  results []\<rparr>"

datatype store_error = TypeError

text \<open>
  The three instants are the clock at the top of the function, in \<open>generateRecentFile\<close> and in
  \<open>updateHistoricalRange\<close>. A daily file that is missing or corrupt gives 24 empty slots; one
  that parses to a value without \<open>hours\<close> makes the assignment throw.
\<close>

definition updateHistoricalData ::
  "date_api \<Rightarrow> int \<Rightarrow> int \<Rightarrow> int \<Rightarrow> VisibilityResult list \<Rightarrow> dir \<Rightarrow> store_error + dir" where
  "updateHistoricalData api now nowRecent nowRange results history =
     (let ts = readingTimestamp now results;
          dateString = isoDate api ts;
          reading = newReading ts results;
          hour = getUTCHours ts
      in case (case map_of history dateString of
                 None \<Rightarrow> Some (replicate 24 None)
               | Some Corrupt \<Rightarrow> Some (replicate 24 None)
               | Some (Daily hours) \<Rightarrow> Some hours
               | Some _ \<Rightarrow> None) of
           None \<Rightarrow> Inl TypeError
         | Some hours \<Rightarrow>
             Inr (updateHistoricalRange nowRange
                    (generateRecentFile api nowRecent
                       (writeFile dateString (Daily (setHour hours hour reading)) history))))"


section \<open>The retention sweep\<close>

definition TWO_YEARS_MS :: int where
  "TWO_YEARS_MS = 2 * 365 * 24 * 60 * 60 * 1000"

text \<open>This script writes the metadata to the file \<open>range\<close>.\<close>

definition cleanupRange :: "int \<Rightarrow> dir \<Rightarrow> dir" where
  "cleanupRange now history =
     (let dateFiles = sort (filter isDateFile (readdir history))
      in if dateFiles = [] then history
         else writeFile ''range'' (Range (rangeData now dateFiles)) history)"

text \<open>The loop over the directory listing; \<open>NaN < cutoffTime\<close> is false.\<close>

fun cleanupLoop ::
  "date_api \<Rightarrow> int \<Rightarrow> string list \<Rightarrow> dir \<Rightarrow> nat \<Rightarrow> nat \<Rightarrow> dir \<times> nat \<times> nat" where
  "cleanupLoop api cutoffTime [] history deletedCount keptCount =
     (history, deletedCount, keptCount)"
| "cleanupLoop api cutoffTime (file # files) history deletedCount keptCount =
     (if \<not> isDateFile file then cleanupLoop api cutoffTime files history deletedCount keptCount
      else if (case dateTime api file of None \<Rightarrow> False | Some t \<Rightarrow> t < cutoffTime)
      then cleanupLoop api cutoffTime files (unlink file history) (deletedCount + 1) keptCount
      else cleanupLoop api cutoffTime files history deletedCount (keptCount + 1))"

text \<open>
  \<open>None\<close> is a history directory that does not exist: \<open>readdir\<close> throws \<open>ENOENT\<close>, which the
  script reports and survives. The result is the directory and \<open>deletedCount\<close>.
\<close>

definition cleanup :: "date_api \<Rightarrow> int \<Rightarrow> int \<Rightarrow> dir option \<Rightarrow> dir option \<times> nat" where
  "cleanup api now nowRange fs =
     (case fs of
        None \<Rightarrow> (None, 0)
      | Some history \<Rightarrow>
          (case cleanupLoop api (now - TWO_YEARS_MS) (readdir history) history 0 0 of
             (history', deletedCount, keptCount) \<Rightarrow>
               (Some (if 0 < deletedCount \<or> 0 < keptCount then cleanupRange nowRange history'
                      else history'),
                deletedCount)))"


section \<open>Notions of the specification\<close>

text \<open>
  A bucket is within the trailing seven days when its name is a date key and its date is not
  before \<open>now\<close> minus 7 times 24 hours.
\<close>

definition withinTrailingSevenDays :: "date_api \<Rightarrow> int \<Rightarrow> string \<Rightarrow> bool" where
  "withinTrailingSevenDays api now f =
     (isDateFile f
      \<and> (case dateTime api f of None \<Rightarrow> False | Some t \<Rightarrow> now - 7 * 24 * 3600000 \<le> t))"

text \<open>The non-empty hourly readings of a bucket.\<close>

definition bucketReadings :: "content \<Rightarrow> HistoricalReading list" where
  "bucketReadings c = (case c of Daily hours \<Rightarrow> validReadings hours | _ \<Rightarrow> [])"

text \<open>
  A bucket is expired when its name is a date key and its date is strictly earlier than
  \<open>now\<close> minus two years of 365 days.
\<close>

definition expired :: "date_api \<Rightarrow> int \<Rightarrow> string \<Rightarrow> bool" where
  "expired api now f =
     (isDateFile f
      \<and> (case dateTime api f of None \<Rightarrow> False
          | Some t \<Rightarrow> t < now - 2 * 365 * 24 * 3600000))"


section \<open>Example inputs\<close>

text \<open>
  A location with \<open>k + m\<close> landmarks on one-pixel regions: the first \<open>k\<close> match their
  template (no mismatching pixel), the other \<open>m\<close> do not (every pixel mismatches).
\<close>

definition sample_landmark :: "string \<Rightarrow> rat \<Rightarrow> LandmarkTemplate" where
  "sample_landmark nm th =
     \<lparr>template_name = nm, templatePath = nm,
      template_region = \<lparr>rect_x = 0, rect_y = 0, width = 1, height = 1\<rparr>,
      threshold = th\<rparr>"

definition sample_env :: "nat \<Rightarrow> nat \<Rightarrow> unit env" where
  "sample_env k m =
     \<lparr>readConfig = (\<lambda>f. if f = ''cam'' then
          Some \<lparr>config_location = ''cam'', config_region = ''bay'',
                source = Image ''http://cam.example/still.jpg'',
                landmarks = replicate k (sample_landmark ''seen'' (1 / 2))
                            @ replicate m (sample_landmark ''hidden'' (1 / 2))\<rparr> else None),
      fetchWebcamImage = (\<lambda>s. Some ()),
      pixelmatch = (\<lambda>b r path. if path = ''seen'' then Some 0 else Some (width r * height r))\<rparr>"

definition seen_detail :: LandmarkDetail where
  "seen_detail = \<lparr>name = ''seen'', visible = True, similarity = 1\<rparr>"

definition hidden_detail :: LandmarkDetail where
  "hidden_detail = \<lparr>name = ''hidden'', visible = False, similarity = 0\<rparr>"

text \<open>
  \<open>Date\<close> on January 2024 (UTC): 1704067200000 is 2024-01-01T00:00:00Z. Outside that month
  the functions are completed arbitrarily.
\<close>

definition digitValue :: "char \<Rightarrow> int" where
  "digitValue c = int (of_char c) - 48"

definition jan2024 :: date_api where
  "jan2024 =
     \<lparr>isoDate = (\<lambda>t. let d = nat ((t - 1704067200000) div 86400000) + 1
                     in ''2024-01-'' @ [''0123456789'' ! (d div 10), ''0123456789'' ! (d mod 10)]),
      dateTime = (\<lambda>f. if take 8 f = ''2024-01-'' \<and> length f = 10
                      then Some (1704067200000
                                 + (10 * digitValue (f ! 8) + digitValue (f ! 9) - 1) * 86400000)
                      else None)\<rparr>"

text \<open>A result for a location with two landmarks, \<open>k\<close> of them visible.\<close>

definition sample_result :: "string \<Rightarrow> string \<Rightarrow> nat \<Rightarrow> int \<Rightarrow> VisibilityResult" where
  "sample_result loc reg k t =
     \<lparr>location = loc, landmarksVisible = k, totalLandmarks = 2,
      visibilityScore = Num (50 * of_nat k), fogLevel = getFogLevel (Num (50 * of_nat k)),
      timestamp = t, landmarkDetails = [], region = reg\<rparr>"

definition sample_reading :: "int \<Rightarrow> HistoricalReading" where
  "sample_reading t =
     \<lparr>reading_timestamp = t,
      regions = [(''golden-gate'',
                  \<lparr>entry_fogLevel = Heavy, entry_visibilityScore = Num 0,
                   entry_landmarksVisible = 0, entry_totalLandmarks = 2\<rparr>)]\<rparr>"

text \<open>
  A history directory on 2024-01-10: readings at 09:00 that day and at 01:00 and 03:00 on
  2024-01-04, a corrupt file for 2024-01-02, and an empty rollup.
\<close>

definition sample_history :: dir where
  "sample_history =
     [(''2024-01-10'', Daily (setHour (replicate 24 None) 9 (sample_reading 1704877200000))),
      (''2024-01-02'', Corrupt),
      (''2024-01-04'', Daily (setHour (setHour (replicate 24 None) 3
                                           (sample_reading 1704337200000))
                                1 (sample_reading 1704330000000))),
      (''recent'', Recent [])]"

text \<open>The same day with a corrupt file for 2024-01-09.\<close>

definition corrupt_history :: dir where
  "corrupt_history =
     [(''2024-01-09'', Corrupt),
      (''2024-01-10'', Daily (setHour (replicate 24 None) 9 (sample_reading 1704877200000))),
      (''recent'', Recent [])]"

text \<open>Three results of one run, the first and the last for the same region.\<close>

definition sample_results :: "VisibilityResult list" where
  "sample_results =
     [sample_result ''cam-a'' ''golden-gate'' 0 1704888000000,
      sample_result ''cam-b'' ''downtown'' 1 1704888001000,
      sample_result ''cam-c'' ''golden-gate'' 2 1704888002000]"

text \<open>
  A directory swept on 2026-01-10T00:00:00Z (1768003200000), when the cutoff is
  2024-01-11T00:00:00Z, and the directory after the sweep.
\<close>

definition old_history :: dir where
  "old_history =
     [(''2024-01-05'', Daily (replicate 24 None)),
      (''recent'', Recent []),
      (''2024-01-20'', Daily (replicate 24 None)),
      (''notes.txt'', Corrupt)]"

definition swept_history :: dir where
  "swept_history =
     [(''recent'', Recent []),
      (''2024-01-20'', Daily (replicate 24 None)),
      (''notes.txt'', Corrupt),
      (''range'', Range \<lparr>startDate = ''2024-01-20'', endDate = ''2024-01-20'',
                         totalDays = 1, lastUpdated = 1768003200000\<rparr>)]"

text \<open>
  A region of three pixels of which one mismatches its template, for a landmark with
  threshold 0.67.
\<close>

definition third_env :: "unit env" where
  "third_env = \<lparr>readConfig = (\<lambda>f. None), fetchWebcamImage = (\<lambda>s. Some ()),
                pixelmatch = (\<lambda>b r path. Some 1)\<rparr>"

definition third_landmark :: LandmarkTemplate where
  "third_landmark =
     \<lparr>template_name = ''test-landmark'', templatePath = ''template.png'',
      template_region = \<lparr>rect_x = 50, rect_y = 50, width = 3, height = 1\<rparr>,
      threshold = fl (67 / 100)\<rparr>"

definition one_of_three :: LocationAnalysis where
  "one_of_three =
     \<lparr>location = ''cam'', landmarksVisible = 1, totalLandmarks = 3,
      visibilityScore = Num 33, fogLevel = Moderate, timestamp = 0,
      landmarkDetails = replicate 1 seen_detail @ replicate 2 hidden_detail\<rparr>"


section \<open>The example location\<close>

lemma fl_0: "fl 0 = 0"
  by (simp add: fl_def)

lemma fl_1: "fl 1 = 1"
  by code_simp

lemma rawSimilarity_one_pixel:
  assumes "width r = 1" "height r = 1"
  shows "rawSimilarity 0 r = 1" "rawSimilarity (width r * height r) r = 0"
  using assms by (simp_all add: rawSimilarity_def fl_0 fl_1)

lemma reportedSimilarity_01: "reportedSimilarity 0 = 0" "reportedSimilarity 1 = 1"
  by code_simp+

lemma sample_landmark_sel:
  "template_name (sample_landmark nm th) = nm"
  "templatePath (sample_landmark nm th) = nm"
  "threshold (sample_landmark nm th) = th"
  "width (template_region (sample_landmark nm th)) = 1"
  "height (template_region (sample_landmark nm th)) = 1"
  by (simp_all add: sample_landmark_def)

lemma pixelmatch_sample:
  "pixelmatch (sample_env k m) b r path =
     (if path = ''seen'' then Some 0 else Some (width r * height r))"
  by (simp add: sample_env_def)

lemma check_seen:
  "checkLandmarkVisibility (sample_env k m) () (sample_landmark ''seen'' (1 / 2))
     = Some \<lparr>check_visible = True, check_similarity = 1\<rparr>"
proof -
  let ?r = "template_region (sample_landmark ''seen'' (1 / 2))"
  have raw: "rawSimilarity 0 ?r = 1"
    by (rule rawSimilarity_one_pixel) (simp_all only: sample_landmark_sel)
  show ?thesis
    unfolding checkLandmarkVisibility_def Let_def sample_landmark_sel pixelmatch_sample
    by (simp add: raw reportedSimilarity_01)
qed

lemma check_hidden:
  "checkLandmarkVisibility (sample_env k m) () (sample_landmark ''hidden'' (1 / 2))
     = Some \<lparr>check_visible = False, check_similarity = 0\<rparr>"
proof -
  let ?r = "template_region (sample_landmark ''hidden'' (1 / 2))"
  have "rawSimilarity (width ?r * height ?r) ?r = 0"
    by (rule rawSimilarity_one_pixel) (simp_all only: sample_landmark_sel)
  then have raw: "rawSimilarity (1 * 1) ?r = 0"
    by (simp only: sample_landmark_sel)
  show ?thesis
    unfolding checkLandmarkVisibility_def Let_def sample_landmark_sel pixelmatch_sample
    by (simp add: raw [simplified] reportedSimilarity_01)
qed

lemma checkLandmarks_hidden:
  "checkLandmarks (sample_env k m) () (replicate b (sample_landmark ''hidden'' (1 / 2))) vc ds
     = Some (vc, ds @ replicate b hidden_detail)"
proof (induction b arbitrary: ds)
  case 0
  show ?case by simp
next
  case (Suc b)
  show ?case
    using Suc [of "ds @ [hidden_detail]"]
    by (simp add: check_hidden sample_landmark_sel hidden_detail_def)
qed

lemma checkLandmarks_sample:
  "checkLandmarks (sample_env k m) ()
     (replicate a (sample_landmark ''seen'' (1 / 2))
      @ replicate b (sample_landmark ''hidden'' (1 / 2))) vc ds
     = Some (vc + a, ds @ replicate a seen_detail @ replicate b hidden_detail)"
proof (induction a arbitrary: vc ds)
  case 0
  show ?case by (simp add: checkLandmarks_hidden)
next
  case (Suc a)
  show ?case
    using Suc [of "Suc vc" "ds @ [seen_detail]"]
    by (simp add: check_seen sample_landmark_sel seen_detail_def)
qed

lemma sample_env_sel:
  "readConfig (sample_env k m) ''cam'' =
     Some \<lparr>config_location = ''cam'', config_region = ''bay'',
           source = Image ''http://cam.example/still.jpg'',
           landmarks = replicate k (sample_landmark ''seen'' (1 / 2))
                       @ replicate m (sample_landmark ''hidden'' (1 / 2))\<rparr>"
  "fetchWebcamImage (sample_env k m) src = Some ()"
  by (simp_all add: sample_env_def)

text \<open>With \<open>k\<close> of \<open>k + m\<close> landmarks visible, the analysis returns the counts and the two
  values computed from the unrounded score.\<close>

lemma analyze_sample:
  "analyzeFogLevel (sample_env k m) now ''cam'' =
     Inr \<lparr>location = ''cam'', landmarksVisible = k, totalLandmarks = k + m,
          visibilityScore = Math_round (js_mul (js_div (of_nat k) (of_nat (k + m))) 100),
          fogLevel = getFogLevel (js_mul (js_div (of_nat k) (of_nat (k + m))) 100),
          timestamp = now,
          landmarkDetails = replicate k seen_detail @ replicate m hidden_detail\<rparr>"
proof -
  have "checkLandmarks (sample_env k m) ()
     (replicate k (sample_landmark ''seen'' (1 / 2))
      @ replicate m (sample_landmark ''hidden'' (1 / 2))) 0 []
     = Some (k, replicate k seen_detail @ replicate m hidden_detail)"
    using checkLandmarks_sample [of k m k m 0 "[]"] by simp
  then show ?thesis
    unfolding analyzeFogLevel_def sample_env_sel
    by (simp add: Let_def del: of_nat_add)
qed

lemma raw_1_3: "js_mul (js_div 1 3) 100 = Num (2345624805922133 / 70368744177664)"
  by code_simp

lemma score_1_3:
  "Math_round (js_mul (js_div 1 3) 100) = Num 33"
  "getFogLevel (js_mul (js_div 1 3) 100) = Moderate"
  by code_simp+

lemma score_8_41:
  "Math_round (js_mul (js_div 8 41) 100) = Num 20"
  "getFogLevel (js_mul (js_div 8 41) 100) = Heavy"
  by code_simp+

lemma raw_23_40: "js_mul (js_div 23 40) 100 = Num (8092405580431359 / 140737488355328)"
  by code_simp

lemma score_23_40:
  "Math_round (js_mul (js_div 23 40) 100) = Num 57"
  "getFogLevel (js_mul (js_div 23 40) 100) = Light"
  by code_simp+

lemma analyze_one_of_three: "analyzeFogLevel (sample_env 1 2) 0 ''cam'' = Inr one_of_three"
  using analyze_sample [of 1 2 0] by (simp add: score_1_3 one_of_three_def)


section \<open>The classifier\<close>

text \<open>
  C4. For every integer score, \<open>getFogLevel\<close> returns clear iff the score is at least 80,
  light iff it is in 50..79, moderate iff it is in 20..49 and heavy iff it is below 20; in
  particular at the boundary scores 80, 79, 50, 49, 20, 19, 0 and 100. The scores 0..100 of
  the claim are among these integers.
\<close>

theorem getFogLevel_bands:
  "(getFogLevel (Num (of_int s)) = Clear \<longleftrightarrow> 80 \<le> s)
   \<and> (getFogLevel (Num (of_int s)) = Light \<longleftrightarrow> 50 \<le> s \<and> s < 80)
   \<and> (getFogLevel (Num (of_int s)) = Moderate \<longleftrightarrow> 20 \<le> s \<and> s < 50)
   \<and> (getFogLevel (Num (of_int s)) = Heavy \<longleftrightarrow> s < 20)
   \<and> getFogLevel (Num 80) = Clear \<and> getFogLevel (Num 79) = Light
   \<and> getFogLevel (Num 50) = Light \<and> getFogLevel (Num 49) = Moderate
   \<and> getFogLevel (Num 20) = Moderate \<and> getFogLevel (Num 19) = Heavy
   \<and> getFogLevel (Num 0) = Heavy \<and> getFogLevel (Num 100) = Clear"
  by (simp add: getFogLevel_def)


section \<open>The location analysis\<close>

lemma analyzeFogLevel_Inr:
  assumes "analyzeFogLevel env now locationName = Inr r"
  shows "visibilityScore r = Math_round (js_mul (js_div (of_nat (landmarksVisible r))
                                            (of_nat (totalLandmarks r))) 100)
       \<and> fogLevel r = getFogLevel (js_mul (js_div (of_nat (landmarksVisible r))
                                            (of_nat (totalLandmarks r))) 100)"
  using assms
  by (auto simp: analyzeFogLevel_def Let_def split: option.splits prod.splits)

text \<open>Rounding a score moves it to another band only from the half unit below a boundary.\<close>

lemma classify_rounded:
  "getFogLevel (Num s) = getFogLevel (Num (of_int \<lfloor>s + 1 / 2\<rfloor>))
     \<or> 39 / 2 \<le> s \<and> s < 20 \<or> 99 / 2 \<le> s \<and> s < 50 \<or> 159 / 2 \<le> s \<and> s < 80"
  unfolding getFogLevel_def js_ge.simps
  by (simp add: le_floor_iff)

text \<open>
  C1, as stated, fails. With 8 of 41 landmarks visible the unrounded score is 19.51...: the
  result reports the score 20 and the level heavy, while the classifier maps 20 to moderate.
\<close>

theorem fogLevel_not_class_of_reported_score:
  "analyzeFogLevel (sample_env 8 33) 0 ''cam'' =
     Inr \<lparr>location = ''cam'', landmarksVisible = 8, totalLandmarks = 41,
          visibilityScore = Num 20, fogLevel = Heavy, timestamp = 0,
          landmarkDetails = replicate 8 seen_detail @ replicate 33 hidden_detail\<rparr>
   \<and> getFogLevel (Num 20) = Moderate"
proof -
  have "getFogLevel (Num 20) = Moderate" by (simp add: getFogLevel_def)
  with analyze_sample [of 8 33 0] show ?thesis
    by (simp add: score_8_41)
qed

text \<open>
  C1, amended. For an analysis with at least one landmark, the unrounded score
  \<open>(landmarksVisible / totalLandmarks) * 100\<close> is a finite number \<open>s\<close>; \<open>visibilityScore\<close> is
  \<open>s\<close> rounded and \<open>fogLevel\<close> is the classifier applied to \<open>s\<close> itself. The level is the
  class of the reported score unless \<open>s\<close> lies in the half unit below a band boundary:
  in [19.5, 20), [49.5, 50) or [79.5, 80).
\<close>

theorem fogLevel_classifies_unrounded_score:
  assumes "analyzeFogLevel env now locationName = Inr r" and "0 < totalLandmarks r"
  shows "\<exists>s. js_mul (js_div (of_nat (landmarksVisible r)) (of_nat (totalLandmarks r))) 100 = Num s
           \<and> visibilityScore r = Num (of_int \<lfloor>s + 1 / 2\<rfloor>)
           \<and> fogLevel r = getFogLevel (Num s)
           \<and> (fogLevel r = getFogLevel (visibilityScore r)
               \<or> 39 / 2 \<le> s \<and> s < 20 \<or> 99 / 2 \<le> s \<and> s < 50 \<or> 159 / 2 \<le> s \<and> s < 80)"
proof -
  let ?raw = "js_mul (js_div (of_nat (landmarksVisible r)) (of_nat (totalLandmarks r))) 100"
  from assms(2) obtain s where s: "?raw = Num s"
    by (simp add: js_div_def)
  from analyzeFogLevel_Inr [OF assms(1)] s
  have "visibilityScore r = Num (of_int \<lfloor>s + 1 / 2\<rfloor>)" "fogLevel r = getFogLevel (Num s)"
    by simp_all
  with s classify_rounded [of s] show ?thesis by auto
qed

theorem fogLevel_classifies_unrounded_score_witness:
  "analyzeFogLevel (sample_env 1 2) 0 ''cam'' = Inr one_of_three
   \<and> 0 < totalLandmarks one_of_three
   \<and> visibilityScore one_of_three = Num 33
   \<and> fogLevel one_of_three = getFogLevel (Num (2345624805922133 / 70368744177664))
   \<and> fogLevel one_of_three = getFogLevel (visibilityScore one_of_three)"
proof -
  let ?q = "2345624805922133 / 70368744177664 :: rat"
  have pos: "0 < totalLandmarks one_of_three" by (simp add: one_of_three_def)
  have raw: "js_mul (js_div (of_nat (landmarksVisible one_of_three))
                            (of_nat (totalLandmarks one_of_three))) 100 = Num ?q"
    by (simp add: one_of_three_def raw_1_3)
  from fogLevel_classifies_unrounded_score [OF analyze_one_of_three pos]
  obtain s where s: "js_mul (js_div (of_nat (landmarksVisible one_of_three))
                            (of_nat (totalLandmarks one_of_three))) 100 = Num s"
    and lvl: "fogLevel one_of_three = getFogLevel (Num s)"
    by blast
  from s raw have "Num s = Num ?q" by (simp only:)
  then have "s = ?q" by (simp only: jsnum.inject)
  with lvl have "fogLevel one_of_three = getFogLevel (Num ?q)" by (simp only:)
  moreover have "visibilityScore one_of_three = Num 33"
    "fogLevel one_of_three = getFogLevel (visibilityScore one_of_three)"
    by (simp_all add: one_of_three_def getFogLevel_def)
  ultimately show ?thesis using analyze_one_of_three pos by blast
qed

text \<open>
  C5. With 23 of 40 landmarks visible, \<open>100 * 23 / 40\<close> is 57.5, which rounds to 58, also
  when the product and the quotient are taken in double precision. The program computes
  \<open>(23 / 40) * 100\<close>, which in double precision is 57.49999999999999, and reports 57.
\<close>

theorem visibilityScore_23_of_40:
  "analyzeFogLevel (sample_env 23 17) 0 ''cam'' =
     Inr \<lparr>location = ''cam'', landmarksVisible = 23, totalLandmarks = 40,
          visibilityScore = Num 57, fogLevel = Light, timestamp = 0,
          landmarkDetails = replicate 23 seen_detail @ replicate 17 hidden_detail\<rparr>
   \<and> js_mul (js_div 23 40) 100 = Num (8092405580431359 / 140737488355328)
   \<and> round (100 * 23 / 40 :: rat) = 58
   \<and> Math_round (js_div (fl (100 * 23)) 40) = Num 58"
proof -
  have "round (100 * 23 / 40 :: rat) = 58" by code_simp
  moreover have "Math_round (js_div (fl (100 * 23)) 40) = Num 58" by code_simp
  moreover note raw_23_40
  moreover from analyze_sample [of 23 17 0]
  have "analyzeFogLevel (sample_env 23 17) 0 ''cam'' =
     Inr \<lparr>location = ''cam'', landmarksVisible = 23, totalLandmarks = 40,
          visibilityScore = Num 57, fogLevel = Light, timestamp = 0,
          landmarkDetails = replicate 23 seen_detail @ replicate 17 hidden_detail\<rparr>"
    by (simp add: score_23_40)
  ultimately show ?thesis by blast
qed


section \<open>Rounding error of the double arithmetic\<close>

lemma round_half_even_err: "\<bar>of_int (round_half_even v) - v\<bar> \<le> 1 / 2"
proof -
  have "of_int \<lfloor>v\<rfloor> \<le> v" "v < of_int \<lfloor>v\<rfloor> + 1" by linarith+
  then show ?thesis
    by (auto simp: round_half_even_def Let_def)
qed

lemma round_half_even_of_int: "round_half_even (of_int z) = z"
  by (simp add: round_half_even_def)

lemma ilog2_lower:
  assumes "0 < v"
  shows "2 powi (ilog2 v) \<le> v"
proof -
  obtain p q where pq: "quotient_of v = (p, q)" by (cases "quotient_of v")
  then have q: "0 < q" and v: "v = of_int p / of_int q"
    by (auto dest: quotient_of_denom_pos quotient_of_div)
  with assms have p: "0 < p" by (simp add: zero_less_divide_iff)
  let ?d = "bitlen p - bitlen q"
  have bp: "2 ^ nat (bitlen p - 1) \<le> p" and bq: "q < 2 ^ nat (bitlen q)"
    using bitlen_bounds [OF p] bitlen_bounds [OF q] by simp_all
  have one: "1 \<le> bitlen p" using p bitlen_eq_zero_iff [of p] bitlen_nonneg [of p] by linarith
  have low: "2 powi (?d - 1) \<le> v"
  proof -
    have "2 powi (?d - 1) = (2 powi (bitlen p - 1) / 2 powi (bitlen q) :: rat)"
      using power_int_diff [of "2 :: rat" "bitlen p - 1" "bitlen q"] by (simp add: algebra_simps)
    also have "\<dots> = 2 ^ nat (bitlen p - 1) / 2 ^ nat (bitlen q)"
      using one bitlen_nonneg [of q] by (simp add: power_int_def)
    also have "\<dots> \<le> of_int p / of_int q"
    proof (rule frac_le)
      show "(2 :: rat) ^ nat (bitlen p - 1) \<le> of_int p"
        using bp by (metis of_int_le_iff of_int_numeral of_int_power)
      show "(of_int q :: rat) \<le> 2 ^ nat (bitlen q)"
        using bq by (metis less_imp_le of_int_le_iff of_int_numeral of_int_power)
      show "0 < (of_int q :: rat)" using q by simp
      show "(0 :: rat) \<le> of_int p" using p by simp
    qed
    finally show ?thesis using v by simp
  qed
  show ?thesis
    using low by (auto simp: ilog2_def pq Let_def)
qed

lemma ilog2_upper:
  assumes "0 < v" and "v \<le> 2 ^ k"
  shows "ilog2 v \<le> int k"
proof -
  have "2 powi (ilog2 v) \<le> (2 powi (int k) :: rat)"
    using ilog2_lower [OF assms(1)] assms(2) by simp
  then show ?thesis
    by (rule power_int_le_imp_le_exp [rotated]) simp_all
qed

lemma fl_err:
  assumes "\<bar>v\<bar> \<le> 2 ^ k"
  shows "\<bar>fl v - v\<bar> \<le> 2 ^ k / 2 ^ 53"
proof (cases "v = 0")
  case True
  then show ?thesis by (simp add: fl_def)
next
  case False
  let ?e = "ilog2 \<bar>v\<bar> - 52"
  let ?P = "2 powi ?e :: rat"
  let ?m = "round_half_even (v / ?P)"
  have P: "0 < ?P" by simp
  have fl: "fl v = of_int ?m * ?P" using False by (simp add: fl_def Let_def)
  have "fl v - v = (of_int ?m - v / ?P) * ?P"
    unfolding fl using P by (simp add: algebra_simps)
  then have "\<bar>fl v - v\<bar> = \<bar>of_int ?m - v / ?P\<bar> * ?P"
    using P by (simp add: abs_mult)
  also have "\<dots> \<le> (1 / 2) * ?P"
    using round_half_even_err [of "v / ?P"] P by (intro mult_right_mono) simp_all
  also have "?P \<le> 2 powi (int k - 52)"
  proof (rule power_int_increasing)
    from False assms have "ilog2 \<bar>v\<bar> \<le> int k" by (intro ilog2_upper) simp_all
    then show "?e \<le> int k - 52" by simp
  qed simp
  also have "(2 powi (int k - 52) :: rat) = 2 ^ k / 2 ^ 52"
    using power_int_diff [of "2 :: rat" "int k" 52] by simp
  finally show ?thesis by simp
qed

lemma fl_of_nat:
  assumes "n < 2 ^ 53"
  shows "fl (of_nat n) = of_nat n"
proof (cases "n = 0")
  case True
  then show ?thesis by (simp add: fl_def)
next
  case False
  let ?v = "of_nat n :: rat"
  have pos: "0 < ?v" using False by simp
  let ?e = "ilog2 ?v - 52"
  have "ilog2 ?v < 53"
  proof (rule ccontr)
    assume "\<not> ilog2 ?v < 53"
    then have "(2 powi 53 :: rat) \<le> 2 powi (ilog2 ?v)"
      by (intro power_int_increasing) simp_all
    also have "\<dots> \<le> ?v" by (rule ilog2_lower [OF pos])
    finally have "(2 ^ 53 :: rat) \<le> of_nat n" by simp
    then have "(of_nat (2 ^ 53) :: rat) \<le> of_nat n" by simp
    then have "2 ^ 53 \<le> n" by (simp only: of_nat_le_iff)
    with assms show False by simp
  qed
  then have e: "?e \<le> 0" by simp
  define j where "j = nat (- ?e)"
  have P: "(2 powi ?e :: rat) = 1 / 2 ^ j"
    using e by (simp add: j_def power_int_def field_simps)
  have "?v / 2 powi ?e = of_int (int n * 2 ^ j)"
    unfolding P by simp
  then have "round_half_even (?v / 2 powi ?e) = int n * 2 ^ j"
    by (simp only: round_half_even_of_int)
  moreover have "fl ?v = of_int (round_half_even (?v / 2 powi ?e)) * 2 powi ?e"
    using False by (simp add: fl_def Let_def)
  ultimately have "fl ?v = of_int (int n * 2 ^ j) * (1 / 2 ^ j)"
    by (simp only: P)
  then show ?thesis by simp
qed


section \<open>The region comparison\<close>

lemma abs_scale_100:
  fixes y r e p s :: rat
  shows "\<bar>y - r * 100\<bar> \<le> p \<Longrightarrow> \<bar>r - e\<bar> \<le> s \<Longrightarrow> \<bar>y - 100 * e\<bar> \<le> p + 100 * s"
  by linarith

lemma abs_floor_half:
  fixes y x p :: rat
  shows "\<bar>y - x\<bar> \<le> p \<Longrightarrow> \<bar>of_int \<lfloor>y + 1 / 2\<rfloor> - x\<bar> \<le> 1 / 2 + p"
  by linarith

lemma abs_div_100:
  fixes x e :: rat
  shows "\<bar>x - 100 * e\<bar> \<le> 1 / 2 \<Longrightarrow> 0 \<le> e \<Longrightarrow> e \<le> 1 \<Longrightarrow> \<bar>x / 100\<bar> \<le> 2"
  by linarith

lemma similarity_rounding:
  fixes d t :: nat
  assumes t: "0 < t" and dt: "d \<le> t" and small: "t < 2 ^ 32"
    and wh: "width r * height r = t"
  shows "\<bar>rawSimilarity d r - (1 - of_nat d / of_nat t)\<bar> \<le> 3 / 2 ^ 53"
    and "\<exists>m. \<bar>of_int m - 100 * (1 - of_nat d / of_nat t :: rat)\<bar> \<le> 1 / 2
             \<and> \<bar>reportedSimilarity (rawSimilarity d r) - of_int m / 100\<bar> \<le> 1 / 2 ^ 52"
proof -
  let ?t = "of_nat t :: rat"
  let ?q = "of_nat d / ?t :: rat"
  let ?e = "1 - ?q"
  let ?a = "fl ?q"
  let ?raw = "rawSimilarity d r"
  let ?y = "fl (?raw * 100)"
  let ?m = "\<lfloor>?y + 1 / 2\<rfloor>"
  have tpos: "0 < ?t" using t by simp
  have "t < 2 ^ 53" using small by simp
  then have total: "fl (of_nat (width r) * of_nat (height r)) = ?t"
    using fl_of_nat [of t] wh by (simp flip: of_nat_mult)
  have q: "0 \<le> ?q" "?q \<le> 1" using t dt by simp_all
  have e: "0 \<le> ?e" "?e \<le> 1" using q by simp_all
  have A: "\<bar>?a - ?q\<bar> \<le> 1 / 9007199254740992"
    using fl_err [of ?q 0] q by simp
  have "\<bar>1 - ?a\<bar> \<le> 2" using A q by linarith
  then have "\<bar>1 - ?a\<bar> \<le> 2 ^ 1" by simp
  then have "\<bar>fl (1 - ?a) - (1 - ?a)\<bar> \<le> 2 ^ 1 / 2 ^ 53" by (rule fl_err)
  then have B: "\<bar>fl (1 - ?a) - (1 - ?a)\<bar> \<le> 2 / 9007199254740992" by simp
  have raw: "?raw = fl (1 - ?a)"
    by (simp add: rawSimilarity_def Let_def total)
  have R: "\<bar>?raw - ?e\<bar> \<le> 3 / 9007199254740992"
    unfolding raw using A B by linarith
  then show "\<bar>?raw - ?e\<bar> \<le> 3 / 2 ^ 53" by simp
  have "\<bar>?raw * 100\<bar> \<le> 128" using R e by linarith
  then have "\<bar>?raw * 100\<bar> \<le> 2 ^ 7" by simp
  then have "\<bar>?y - ?raw * 100\<bar> \<le> 2 ^ 7 / 2 ^ 53" by (rule fl_err)
  then have C: "\<bar>?y - ?raw * 100\<bar> \<le> 128 / 9007199254740992" by simp
  have Y: "\<bar>?y - 100 * ?e\<bar> \<le> 428 / 9007199254740992"
    using abs_scale_100 [OF C R] by simp
  have M: "\<bar>of_int ?m - 100 * ?e\<bar> \<le> 1 / 2 + 428 / 9007199254740992"
    using Y by (rule abs_floor_half)
  define z where "z = ?m * int t - 100 * int t + 100 * int d"
  have z: "(of_int z :: rat) = ?t * (of_int ?m - 100 * ?e)"
    using tpos by (simp add: z_def field_simps)
  have "\<bar>of_int z :: rat\<bar> = ?t * \<bar>of_int ?m - 100 * ?e\<bar>"
    unfolding z using tpos by (simp add: abs_mult)
  also have "\<dots> \<le> ?t * (1 / 2 + 428 / 9007199254740992)"
    using M tpos by (intro mult_left_mono) simp_all
  also have "\<dots> = ?t / 2 + ?t * (428 / 9007199254740992)"
    by (simp add: algebra_simps)
  finally have Z: "\<bar>of_int z :: rat\<bar> \<le> ?t / 2 + ?t * (428 / 9007199254740992)" .
  have "(of_nat t :: rat) \<le> of_nat (2 ^ 32)" using small by (simp only: of_nat_le_iff)
  then have "?t \<le> 4294967296" by simp
  then have "?t * (428 / 9007199254740992) < 1 / 2" by linarith
  with Z have "\<bar>of_int z :: rat\<bar> < ?t / 2 + 1 / 2" by linarith
  then have "(of_int (2 * \<bar>z\<bar>) :: rat) < of_int (int t + 1)" by simp
  then have "2 * \<bar>z\<bar> < int t + 1" by (simp only: of_int_less_iff)
  then have "2 * \<bar>z\<bar> \<le> int t" by simp
  then have "(of_int (2 * \<bar>z\<bar>) :: rat) \<le> of_int (int t)" by (simp only: of_int_le_iff)
  then have "\<bar>of_int z :: rat\<bar> \<le> ?t / 2" by simp
  then have "?t * \<bar>of_int ?m - 100 * ?e\<bar> \<le> ?t * (1 / 2)"
    unfolding z using tpos by (simp add: abs_mult)
  then have near: "\<bar>of_int ?m - 100 * ?e\<bar> \<le> 1 / 2"
    using tpos by (simp only: mult_le_cancel_left_pos)
  have "\<bar>of_int ?m / 100 :: rat\<bar> \<le> 2" using near e by (rule abs_div_100)
  then have "\<bar>of_int ?m / 100 :: rat\<bar> \<le> 2 ^ 1" by simp
  then have "\<bar>fl (of_int ?m / 100) - of_int ?m / 100\<bar> \<le> 2 ^ 1 / 2 ^ 53"
    by (rule fl_err)
  then have "\<bar>reportedSimilarity ?raw - of_int ?m / 100\<bar> \<le> 1 / 2 ^ 52"
    by (simp add: reportedSimilarity_def)
  with near show "\<exists>m. \<bar>of_int m - 100 * ?e\<bar> \<le> 1 / 2
             \<and> \<bar>reportedSimilarity ?raw - of_int m / 100\<bar> \<le> 1 / 2 ^ 52"
    by blast
qed

text \<open>
  C6. Let a comparison succeed with \<open>diff\<close> mismatching pixels in a region of
  \<open>width * height\<close> pixels (fewer than \<open>2 ^ 32\<close>, and \<open>diff\<close> at most that many). The
  unrounded similarity \<open>raw\<close> that the program computes is \<open>1 - diff / totalPixels\<close> up to the
  error \<open>3 / 2 ^ 53\<close> of the double arithmetic, and the landmark is visible iff \<open>raw\<close> is at
  least its threshold. The reported similarity is, up to the representation error
  \<open>1 / 2 ^ 52\<close> of a double, the number \<open>m / 100\<close> for an integer \<open>m\<close> nearest to
  \<open>100 * (1 - diff / totalPixels)\<close>: the similarity rounded to two decimals. The same
  comparison under any other threshold \<open>th\<close> reports the same similarity, and is visible iff
  \<open>raw\<close> is at least \<open>th\<close>.
\<close>

theorem visible_iff_raw_similarity_ge_threshold:
  assumes "checkLandmarkVisibility env buf landmark = Some c"
    and "pixelmatch env buf (template_region landmark) (templatePath landmark) = Some diff"
    and "diff \<le> width (template_region landmark) * height (template_region landmark)"
    and "width (template_region landmark) * height (template_region landmark) < 2 ^ 32"
  shows "\<exists>raw m.
           \<bar>raw - (1 - of_nat diff
                        / of_nat (width (template_region landmark)
                                  * height (template_region landmark)))\<bar> \<le> 3 / 2 ^ 53
           \<and> check_visible c = (threshold landmark \<le> raw)
           \<and> \<bar>of_int m - 100 * (1 - of_nat diff
                        / of_nat (width (template_region landmark)
                                  * height (template_region landmark)) :: rat)\<bar> \<le> 1 / 2
           \<and> \<bar>check_similarity c - of_int m / 100\<bar> \<le> 1 / 2 ^ 52
           \<and> (\<forall>th. checkLandmarkVisibility env buf (landmark\<lparr>threshold := th\<rparr>)
                      = Some \<lparr>check_visible = (th \<le> raw),
                              check_similarity = check_similarity c\<rparr>)"
proof -
  let ?r = "template_region landmark"
  let ?t = "width ?r * height ?r"
  from assms(1) have t: "0 < ?t"
    by (auto simp: checkLandmarkVisibility_def split: if_splits)
  from assms(1,2) have c: "c = \<lparr>check_visible = (threshold landmark \<le> rawSimilarity diff ?r),
                               check_similarity = reportedSimilarity (rawSimilarity diff ?r)\<rparr>"
    by (auto simp: checkLandmarkVisibility_def Let_def split: if_splits)
  have indep: "\<forall>th. checkLandmarkVisibility env buf (landmark\<lparr>threshold := th\<rparr>)
                      = Some \<lparr>check_visible = (th \<le> rawSimilarity diff ?r),
                              check_similarity = check_similarity c\<rparr>"
    using t assms(2) by (simp add: checkLandmarkVisibility_def Let_def c)
  from similarity_rounding [OF t assms(3,4) refl]
  obtain m where "\<bar>rawSimilarity diff ?r - (1 - of_nat diff / of_nat ?t)\<bar> \<le> 3 / 2 ^ 53"
    and "\<bar>of_int m - 100 * (1 - of_nat diff / of_nat ?t :: rat)\<bar> \<le> 1 / 2"
    and "\<bar>reportedSimilarity (rawSimilarity diff ?r) - of_int m / 100\<bar> \<le> 1 / 2 ^ 52"
    by blast
  with indep c show ?thesis
    by (intro exI [of _ "rawSimilarity diff ?r"] exI [of _ m]) simp
qed

lemma check_third:
  "checkLandmarkVisibility third_env () third_landmark
     = Some \<lparr>check_visible = False, check_similarity = fl (67 / 100)\<rparr>"
  "checkLandmarkVisibility third_env () (third_landmark\<lparr>threshold := fl (66 / 100)\<rparr>)
     = Some \<lparr>check_visible = True, check_similarity = fl (67 / 100)\<rparr>"
  by code_simp+

text \<open>
  One mismatching pixel of three: the similarity 0.666... is reported as 0.67. Under the
  threshold 0.67 the landmark is not visible, although the reported value equals the
  threshold; under the threshold 0.66 it is visible, with the same reported value.
\<close>

theorem visible_iff_raw_similarity_ge_threshold_witness:
  "checkLandmarkVisibility third_env () third_landmark
     = Some \<lparr>check_visible = False, check_similarity = fl (67 / 100)\<rparr>
   \<and> threshold third_landmark = fl (67 / 100)
   \<and> checkLandmarkVisibility third_env () (third_landmark\<lparr>threshold := fl (66 / 100)\<rparr>)
     = Some \<lparr>check_visible = True, check_similarity = fl (67 / 100)\<rparr>
   \<and> (\<exists>m. \<bar>of_int m - 100 * (1 - 1 / 3 :: rat)\<bar> \<le> 1 / 2
            \<and> \<bar>fl (67 / 100) - of_int m / 100\<bar> \<le> 1 / 2 ^ 52)"
proof -
  have px: "pixelmatch third_env () (template_region third_landmark) (templatePath third_landmark)
            = Some 1"
    by (simp add: third_env_def)
  have r: "width (template_region third_landmark) = 3" "height (template_region third_landmark) = 1"
    by (simp_all add: third_landmark_def)
  have le: "1 \<le> width (template_region third_landmark) * height (template_region third_landmark)"
    and small: "width (template_region third_landmark) * height (template_region third_landmark)
                < 2 ^ 32"
    by (simp_all add: r)
  from visible_iff_raw_similarity_ge_threshold [OF check_third(1) px le small]
  obtain m :: int where
    "\<bar>of_int m - 100 * (1 - of_nat 1
        / of_nat (width (template_region third_landmark)
                  * height (template_region third_landmark)) :: rat)\<bar> \<le> 1 / 2"
    and "\<bar>check_similarity \<lparr>check_visible = False, check_similarity = fl (67 / 100)\<rparr>
          - of_int m / 100\<bar> \<le> 1 / 2 ^ 52"
    by blast
  then have "\<bar>of_int m - 100 * (1 - 1 / 3 :: rat)\<bar> \<le> 1 / 2
            \<and> \<bar>fl (67 / 100) - of_int m / 100\<bar> \<le> 1 / 2 ^ 52"
    by (simp add: r)
  moreover have "threshold third_landmark = fl (67 / 100)"
    by (simp add: third_landmark_def)
  ultimately show ?thesis using check_third by blast
qed


section \<open>Grouping by region\<close>

lemma set_update_cases:
  "(k', v') \<in> set (AList.update k v al) \<Longrightarrow> (k' = k \<and> v' = v) \<or> (k', v') \<in> set al"
  by (induction al) (auto split: if_splits)

lemma fold_update_map_of:
  "map_of (fold (\<lambda>r m. AList.update (key r) r m) rs m0) k =
     (if filter (\<lambda>r. key r = k) rs = [] then map_of m0 k
      else Some (last (filter (\<lambda>r. key r = k) rs)))"
  by (induction rs arbitrary: m0) (auto simp: update_conv')

lemma fold_update_distinct:
  "distinct (map fst m0) \<Longrightarrow> distinct (map fst (fold (\<lambda>r m. AList.update (key r) r m) rs m0))"
  by (induction rs arbitrary: m0) (auto simp: distinct_update)

lemma fold_update_keys:
  "fst ` set (fold (\<lambda>r m. AList.update (key r) r m) rs m0) = key ` set rs \<union> fst ` set m0"
  by (induction rs arbitrary: m0) (auto simp: dom_update)

lemma fold_update_entries:
  "(\<And>k r. (k, r) \<in> set m0 \<Longrightarrow> k = key r) \<Longrightarrow>
   (k, r) \<in> set (fold (\<lambda>r m. AList.update (key r) r m) rs m0) \<Longrightarrow> k = key r"
proof (induction rs arbitrary: m0)
  case Nil
  then show ?case by simp
next
  case (Cons a rs)
  show ?case
  proof (rule Cons.IH [of "AList.update (key a) a m0"])
    fix k' r' assume "(k', r') \<in> set (AList.update (key a) a m0)"
    then show "k' = key r'"
      using Cons.prems(1) by (auto dest: set_update_cases)
  next
    show "(k, r) \<in> set (fold (\<lambda>r m. AList.update (key r) r m) rs (AList.update (key a) a m0))"
      using Cons.prems(2) by simp
  qed
qed

lemma regionMap_key: "(k, r) \<in> set (regionMap results) \<Longrightarrow> k = region r"
  unfolding regionMap_def by (rule fold_update_entries [of "[]"]) auto

text \<open>
  C8. For every list of results, the region map has exactly one entry per distinct region
  key of the list; the entry of a key is the last result of the list with that key; the
  per-region endpoints have the keys of the map, and their records are, in the same order, the
  records of the collection endpoint, each built from the entry of the map.
\<close>

theorem regionMap_last_write_wins:
  "distinct (map fst (regionMap results))
   \<and> set (map fst (regionMap results)) = region ` set results
   \<and> (\<forall>result \<in> set results.
        map_of (regionMap results) (region result)
          = Some (last (filter (\<lambda>r. region r = region result) results)))
   \<and> map fst (regionEndpoints results) = map fst (regionMap results)
   \<and> map snd (regionEndpoints results) = allRegions results
   \<and> allRegions results =
       map (\<lambda>(key, result). \<lparr>status_region = key,
                   status_fogLevel = fogLevel result,
                   status_visibilityScore = visibilityScore result,
                   status_timestamp = timestamp result,
                   status_landmarks = landmarkDetails result\<rparr>) (regionMap results)"
proof -
  have d: "distinct (map fst (regionMap results))"
    unfolding regionMap_def by (rule fold_update_distinct) simp
  have k: "set (map fst (regionMap results)) = region ` set results"
    unfolding regionMap_def set_map fold_update_keys by simp
  have w: "\<forall>result \<in> set results.
        map_of (regionMap results) (region result)
          = Some (last (filter (\<lambda>r. region r = region result) results))"
    unfolding regionMap_def fold_update_map_of
    by (auto simp: filter_empty_conv)
  have f: "map fst (regionEndpoints results) = map fst (regionMap results)"
    by (simp add: regionEndpoints_def split_def comp_def)
  have a: "allRegions results =
       map (\<lambda>(key, result). \<lparr>status_region = key,
                   status_fogLevel = fogLevel result,
                   status_visibilityScore = visibilityScore result,
                   status_timestamp = timestamp result,
                   status_landmarks = landmarkDetails result\<rparr>) (regionMap results)"
    unfolding allRegions_def map_map
    by (rule map_cong) (auto dest: regionMap_key)
  have s: "map snd (regionEndpoints results) = allRegions results"
    unfolding a by (simp add: regionEndpoints_def split_def comp_def)
  from d k w f s a show ?thesis by blast
qed

theorem regionMap_last_write_wins_witness:
  "sample_result ''cam-a'' ''golden-gate'' 0 1704888000000 \<in> set sample_results
   \<and> map_of (regionMap sample_results) ''golden-gate''
       = Some (sample_result ''cam-c'' ''golden-gate'' 2 1704888002000)
   \<and> map fst (regionMap sample_results) = [''golden-gate'', ''downtown'']
   \<and> map status_fogLevel (allRegions sample_results) = [Clear, Light]"
proof -
  let ?a = "sample_result ''cam-a'' ''golden-gate'' 0 1704888000000"
  have mem: "?a \<in> set sample_results" by (simp add: sample_results_def)
  have reg: "region ?a = ''golden-gate''" by (simp add: sample_result_def)
  have lst: "last (filter (\<lambda>r. region r = ''golden-gate'') sample_results)
             = sample_result ''cam-c'' ''golden-gate'' 2 1704888002000"
    by (simp add: sample_results_def sample_result_def)
  from regionMap_last_write_wins [of sample_results] mem
  have "map_of (regionMap sample_results) (region ?a)
          = Some (last (filter (\<lambda>r. region r = region ?a) sample_results))"
    by blast
  then have "map_of (regionMap sample_results) ''golden-gate''
       = Some (sample_result ''cam-c'' ''golden-gate'' 2 1704888002000)"
    by (simp only: reg lst)
  moreover have "map fst (regionMap sample_results) = [''golden-gate'', ''downtown'']"
    "map status_fogLevel (allRegions sample_results) = [Clear, Light]"
    by (simp_all add: allRegions_def regionMap_def sample_results_def sample_result_def
        getFogLevel_def)
  ultimately show ?thesis using mem by blast
qed


section \<open>The recent rollup\<close>

lemma not_date_names:
  "\<not> isDateFile ''recent''" "\<not> isDateFile ''index''" "\<not> isDateFile ''range''"
  by (simp_all add: isDateFile_def)

lemma map_of_writeFile: "map_of (writeFile f c history) = (map_of history)(f \<mapsto> c)"
  by (simp add: writeFile_def update_conv')

lemma recentFiles_eq:
  "recentFiles api now history = sort (filter (withinTrailingSevenDays api now) (readdir history))"
  unfolding recentFiles_def Let_def filter_filter
  by (rule arg_cong [where f = sort], rule filter_cong)
     (auto simp: withinTrailingSevenDays_def SEVEN_DAYS_MS_def split: option.splits)

lemma readRecentFiles_Some:
  assumes "\<forall>f \<in> set fs. \<exists>hours. map_of history f = Some (Daily hours)"
  shows "readRecentFiles history fs acc =
           Some (acc @ concat (map (\<lambda>f. bucketReadings (the (map_of history f))) fs))"
  using assms
  by (induction fs arbitrary: acc) (auto simp: bucketReadings_def)

lemma readRecentFiles_None:
  assumes "f \<in> set fs" and "\<forall>hours. map_of history f \<noteq> Some (Daily hours)"
  shows "readRecentFiles history fs acc = None"
  using assms
  by (induction fs arbitrary: acc) (auto split: option.splits content.splits)

lemma mset_concat_map:
  "mset (concat (map g ys)) = (\<Sum>x\<in>#mset ys. mset (g x))"
  by (induction ys) auto

lemma mset_concat_map_sort:
  "mset (concat (map g (sort xs))) = mset (concat (map g xs))"
  by (simp add: mset_concat_map)

lemma entries_readings:
  assumes "\<And>f c. (f, c) \<in> set xs \<Longrightarrow> map_of history f = Some c"
  shows "concat (map (\<lambda>f. bucketReadings (the (map_of history f))) (filter P (map fst xs)))
         = concat (map (\<lambda>(f, c). if P f then bucketReadings c else []) xs)"
  using assms
proof (induction xs)
  case Nil
  show ?case by simp
next
  case (Cons e xs)
  obtain f c where e: "e = (f, c)" by (cases e)
  have "map_of history f = Some c" using Cons.prems [of f c] e by simp
  moreover have
    "concat (map (\<lambda>f. bucketReadings (the (map_of history f))) (filter P (map fst xs)))
       = concat (map (\<lambda>(f, c). if P f then bucketReadings c else []) xs)"
    by (rule Cons.IH) (simp add: Cons.prems)
  ultimately show ?case using e by simp
qed

lemma generateRecentFile_ok:
  assumes "\<forall>f \<in> set (readdir history). withinTrailingSevenDays api now f
              \<longrightarrow> (\<exists>hours. map_of history f = Some (Daily hours))"
  shows "generateRecentFile api now history =
           writeFile ''recent''
             (Recent (sort_key reading_timestamp
                (concat (map (\<lambda>f. bucketReadings (the (map_of history f)))
                             (recentFiles api now history)))))
             history"
proof -
  have "\<forall>f \<in> set (recentFiles api now history). \<exists>hours. map_of history f = Some (Daily hours)"
    using assms by (simp add: recentFiles_eq)
  from readRecentFiles_Some [OF this, of "[]"] show ?thesis
    by (simp add: generateRecentFile_def)
qed

text \<open>
  C2. For a directory with distinct names in which every bucket within the trailing seven
  days is readable, and every instant \<open>now\<close>, \<open>generateRecentFile\<close> writes a rollup whose
  readings are exactly (as a multiset) the non-empty hourly readings of the buckets within the
  trailing seven days, sorted ascending by timestamp. Buckets dated more than seven days
  before \<open>now\<close> contribute nothing, whatever they hold.
\<close>

theorem recent_rollup_window_sorted:
  assumes "distinct (readdir history)"
    and "\<forall>(f, c) \<in> set history.
           withinTrailingSevenDays api now f \<longrightarrow> (\<exists>hours. c = Daily hours)"
  shows "\<exists>readings.
           map_of (generateRecentFile api now history) ''recent'' = Some (Recent readings)
           \<and> sorted (map reading_timestamp readings)
           \<and> mset readings =
               mset (concat (map (\<lambda>(f, c). if withinTrailingSevenDays api now f
                                            then bucketReadings c else []) history))"
proof -
  let ?g = "\<lambda>f. bucketReadings (the (map_of history f))"
  let ?all = "concat (map ?g (recentFiles api now history))"
  have d: "distinct (map fst history)" using assms(1) by (simp add: readdir_def)
  have ent: "map_of history f = Some c" if "(f, c) \<in> set history" for f c
    using that d by simp
  have "\<forall>f \<in> set (readdir history). withinTrailingSevenDays api now f
              \<longrightarrow> (\<exists>hours. map_of history f = Some (Daily hours))"
  proof (intro ballI impI)
    fix f assume "f \<in> set (readdir history)" and w: "withinTrailingSevenDays api now f"
    then obtain c where c: "(f, c) \<in> set history" by (auto simp: readdir_def)
    with assms(2) w obtain hours where "c = Daily hours" by blast
    with ent [OF c] show "\<exists>hours. map_of history f = Some (Daily hours)" by simp
  qed
  from generateRecentFile_ok [OF this]
  have gen: "map_of (generateRecentFile api now history) ''recent''
             = Some (Recent (sort_key reading_timestamp ?all))"
    by (simp add: map_of_writeFile)
  have "mset ?all =
        mset (concat (map ?g (filter (withinTrailingSevenDays api now) (map fst history))))"
    by (simp add: recentFiles_eq readdir_def mset_concat_map_sort)
  also have "\<dots> = mset (concat (map (\<lambda>(f, c). if withinTrailingSevenDays api now f
                                            then bucketReadings c else []) history))"
    using entries_readings [of history history "withinTrailingSevenDays api now"] ent by simp
  finally have m: "mset (sort_key reading_timestamp ?all) =
     mset (concat (map (\<lambda>(f, c). if withinTrailingSevenDays api now f
                                            then bucketReadings c else []) history))"
    by simp
  have "sorted (map reading_timestamp (sort_key reading_timestamp ?all))"
    by (rule sorted_sort_key)
  with gen m show ?thesis by blast
qed

lemma sample_history_rollup:
  "map_of (generateRecentFile jan2024 1704888000000 sample_history) ''recent''
     = Some (Recent [sample_reading 1704330000000, sample_reading 1704337200000,
                     sample_reading 1704877200000])"
  by code_simp

text \<open>On 2024-01-10 at noon the corrupt file of 2024-01-02 is outside the window.\<close>

theorem recent_rollup_window_sorted_witness:
  "distinct (readdir sample_history)
   \<and> map_of sample_history ''2024-01-02'' = Some Corrupt
   \<and> \<not> withinTrailingSevenDays jan2024 1704888000000 ''2024-01-02''
   \<and> map_of (generateRecentFile jan2024 1704888000000 sample_history) ''recent''
       = Some (Recent [sample_reading 1704330000000, sample_reading 1704337200000,
                       sample_reading 1704877200000])
   \<and> sorted (map reading_timestamp
        [sample_reading 1704330000000, sample_reading 1704337200000,
         sample_reading 1704877200000])"
proof -
  have h1: "distinct (readdir sample_history)" by code_simp
  have h2: "\<forall>(f, c) \<in> set sample_history.
         withinTrailingSevenDays jan2024 1704888000000 f \<longrightarrow> (\<exists>hours. c = Daily hours)"
    by (simp add: sample_history_def withinTrailingSevenDays_def isDateFile_def jan2024_def
        digitValue_def isDigit_def)
  from recent_rollup_window_sorted [OF h1 h2]
  obtain readings where
    r: "map_of (generateRecentFile jan2024 1704888000000 sample_history) ''recent''
          = Some (Recent readings)"
    and s: "sorted (map reading_timestamp readings)"
    by blast
  from r sample_history_rollup
  have "readings = [sample_reading 1704330000000, sample_reading 1704337200000,
                    sample_reading 1704877200000]"
    by simp
  moreover have "map_of sample_history ''2024-01-02'' = Some Corrupt"
    by (simp add: sample_history_def)
  moreover have "\<not> withinTrailingSevenDays jan2024 1704888000000 ''2024-01-02''"
    by code_simp
  ultimately show ?thesis using s h1 sample_history_rollup by blast
qed

text \<open>
  C3, as stated, fails. The file of 2024-01-09 is corrupt and the bucket of 2024-01-10 holds a
  reading; at noon of 2024-01-10 both are within the window. The recompute leaves the
  directory as it was, with the empty rollup it had. Without the corrupt file the same
  recompute writes the rollup with the reading.
\<close>

theorem corrupt_bucket_blocks_rollup:
  "generateRecentFile jan2024 1704888000000 corrupt_history = corrupt_history
   \<and> map_of corrupt_history ''recent'' = Some (Recent [])
   \<and> map_of (generateRecentFile jan2024 1704888000000 (unlink ''2024-01-09'' corrupt_history))
        ''recent''
       = Some (Recent [sample_reading 1704877200000])"
proof -
  have "generateRecentFile jan2024 1704888000000 corrupt_history = corrupt_history"
    by code_simp
  moreover have "map_of corrupt_history ''recent'' = Some (Recent [])"
    by (simp add: corrupt_history_def)
  moreover have
    "map_of (generateRecentFile jan2024 1704888000000 (unlink ''2024-01-09'' corrupt_history))
        ''recent''
       = Some (Recent [sample_reading 1704877200000])"
    by code_simp
  ultimately show ?thesis by blast
qed

text \<open>
  C3, amended. If a file whose name is a date key within the trailing seven days cannot be
  read as a daily bucket (it is unreadable, is not valid JSON, or has no \<open>hours\<close>), the
  recompute is abandoned as a whole: the error is caught, nothing is written, and the
  directory, with the previous rollup, stays as it was.
\<close>

theorem unreadable_bucket_in_window_abandons_recompute:
  assumes "map_of history f = Some c" and "withinTrailingSevenDays api now f"
    and "\<forall>hours. c \<noteq> Daily hours"
  shows "generateRecentFile api now history = history"
proof -
  from assms(1) have "f \<in> set (readdir history)"
    by (auto simp: readdir_def dest: map_of_SomeD intro: rev_image_eqI)
  with assms(2) have "f \<in> set (recentFiles api now history)"
    by (simp add: recentFiles_eq)
  moreover from assms(1,3) have "\<forall>hours. map_of history f \<noteq> Some (Daily hours)" by simp
  ultimately have "readRecentFiles history (recentFiles api now history) [] = None"
    by (rule readRecentFiles_None)
  then show ?thesis by (simp add: generateRecentFile_def)
qed

theorem unreadable_bucket_in_window_abandons_recompute_witness:
  "map_of corrupt_history ''2024-01-09'' = Some Corrupt
   \<and> withinTrailingSevenDays jan2024 1704888000000 ''2024-01-09''
   \<and> (\<forall>hours. Corrupt \<noteq> Daily hours)
   \<and> generateRecentFile jan2024 1704888000000 corrupt_history = corrupt_history"
proof -
  have h1: "map_of corrupt_history ''2024-01-09'' = Some Corrupt"
    by (simp add: corrupt_history_def)
  have h2: "withinTrailingSevenDays jan2024 1704888000000 ''2024-01-09''"
    by code_simp
  have h3: "\<forall>hours. Corrupt \<noteq> Daily hours" by simp
  from unreadable_bucket_in_window_abandons_recompute [OF h1 h2 h3] h1 h2 h3
  show ?thesis by blast
qed


section \<open>Appending a reading\<close>

lemma map_of_generateRecentFile:
  "f \<noteq> ''recent'' \<Longrightarrow> map_of (generateRecentFile api now history) f = map_of history f"
  by (simp add: generateRecentFile_def map_of_writeFile split: option.splits)

lemma map_of_updateHistoricalRange:
  "f \<noteq> ''index'' \<Longrightarrow> map_of (updateHistoricalRange now history) f = map_of history f"
  by (simp add: updateHistoricalRange_def Let_def map_of_writeFile)

lemma setHour_slot:
  "hour < length (setHour hours hour reading) \<and> setHour hours hour reading ! hour = Some reading"
  by (simp add: setHour_def nth_append)

lemma setHour_in_range:
  "hour < length hours \<Longrightarrow> setHour hours hour reading = hours[hour := Some reading]"
  by (simp add: setHour_def)

text \<open>What a successful call leaves in the daily file of its reading.\<close>

lemma updateHistoricalData_Inr:
  assumes "updateHistoricalData api now nowRecent nowRange results history = Inr h1"
    and "isoDate api (readingTimestamp now results) \<noteq> ''recent''"
    and "isoDate api (readingTimestamp now results) \<noteq> ''index''"
  shows "\<exists>hours. (case map_of history (isoDate api (readingTimestamp now results)) of
                     Some (Daily hs) \<Rightarrow> hours = hs | _ \<Rightarrow> hours = replicate 24 None)
           \<and> map_of h1 (isoDate api (readingTimestamp now results))
               = Some (Daily (setHour hours (getUTCHours (readingTimestamp now results))
                                 (newReading (readingTimestamp now results) results)))"
  using assms
  by (auto simp: updateHistoricalData_def Let_def map_of_updateHistoricalRange
        map_of_generateRecentFile map_of_writeFile
      split: option.splits content.splits)

text \<open>The call succeeds unless the daily file parses to a value without \<open>hours\<close>.\<close>

lemma updateHistoricalData_succeeds:
  assumes "\<forall>rs. map_of history (isoDate api (readingTimestamp now results)) \<noteq> Some (Recent rs)"
    and "\<forall>rd. map_of history (isoDate api (readingTimestamp now results)) \<noteq> Some (Range rd)"
  shows "\<exists>h1. updateHistoricalData api now nowRecent nowRange results history = Inr h1"
  using assms
  by (auto simp: updateHistoricalData_def Let_def split: option.splits content.splits)

text \<open>
  C7. After an append for date \<open>d\<close> and hour \<open>h\<close>, a second append whose reading falls on the
  same date and hour succeeds; the slot \<open>h\<close> of the bucket of \<open>d\<close>, which held the first
  reading, then holds the second reading, and every other slot of the bucket is as the first
  append left it. (A date key is never the name of the rollup or of the range metadata.)
\<close>

theorem second_append_replaces_slot:
  assumes "updateHistoricalData api now1 nowRecent1 nowRange1 results1 history = Inr h1"
    and "isoDate api (readingTimestamp now1 results1) = d"
    and "isoDate api (readingTimestamp now2 results2) = d"
    and "getUTCHours (readingTimestamp now1 results1) = h"
    and "getUTCHours (readingTimestamp now2 results2) = h"
    and "d \<noteq> ''recent''" and "d \<noteq> ''index''"
  shows "\<exists>h2 hours1.
           updateHistoricalData api now2 nowRecent2 nowRange2 results2 h1 = Inr h2
           \<and> map_of h1 d = Some (Daily hours1) \<and> h < length hours1
           \<and> hours1 ! h = Some (newReading (readingTimestamp now1 results1) results1)
           \<and> map_of h2 d =
               Some (Daily (hours1[h := Some (newReading (readingTimestamp now2 results2)
                                                results2)]))"
proof -
  let ?r1 = "newReading (readingTimestamp now1 results1) results1"
  let ?r2 = "newReading (readingTimestamp now2 results2) results2"
  from updateHistoricalData_Inr [OF assms(1)] assms(2,4,6,7)
  obtain hours0 where h1: "map_of h1 d = Some (Daily (setHour hours0 h ?r1))"
    by auto
  let ?hours1 = "setHour hours0 h ?r1"
  have slot: "h < length ?hours1" "?hours1 ! h = Some ?r1"
    using setHour_slot [of h hours0 ?r1] by simp_all
  have "\<exists>h2. updateHistoricalData api now2 nowRecent2 nowRange2 results2 h1 = Inr h2"
    by (rule updateHistoricalData_succeeds) (simp_all add: assms(3) h1)
  then obtain h2
    where h2: "updateHistoricalData api now2 nowRecent2 nowRange2 results2 h1 = Inr h2" ..
  from updateHistoricalData_Inr [OF h2] assms(3,5,6,7) h1
  have "map_of h2 d = Some (Daily (setHour ?hours1 h ?r2))"
    by auto
  then have "map_of h2 d = Some (Daily (?hours1[h := Some ?r2]))"
    using slot(1) by (simp add: setHour_in_range)
  with h2 h1 slot show ?thesis by blast
qed

text \<open>Two runs at 12:00 and 12:30 on 2024-01-10.\<close>

theorem second_append_replaces_slot_witness:
  "\<exists>h1 h2 hours1.
     updateHistoricalData jan2024 1704888000000 1704888000000 1704888000000
       [sample_result ''cam-a'' ''golden-gate'' 0 1704888000000] sample_history = Inr h1
     \<and> updateHistoricalData jan2024 1704889800000 1704889800000 1704889800000
         [sample_result ''cam-a'' ''golden-gate'' 2 1704889800000] h1 = Inr h2
     \<and> map_of h1 ''2024-01-10'' = Some (Daily hours1)
     \<and> hours1 ! 12 = Some (newReading 1704888000000
                             [sample_result ''cam-a'' ''golden-gate'' 0 1704888000000])
     \<and> map_of h2 ''2024-01-10'' =
         Some (Daily (hours1[12 := Some (newReading 1704889800000
                             [sample_result ''cam-a'' ''golden-gate'' 2 1704889800000])]))"
proof -
  let ?res1 = "[sample_result ''cam-a'' ''golden-gate'' 0 1704888000000]"
  let ?res2 = "[sample_result ''cam-a'' ''golden-gate'' 2 1704889800000]"
  have t1: "readingTimestamp 1704888000000 ?res1 = 1704888000000"
    and t2: "readingTimestamp 1704889800000 ?res2 = 1704889800000"
    by (simp_all add: readingTimestamp_def sample_result_def)
  have d1: "isoDate jan2024 (readingTimestamp 1704888000000 ?res1) = ''2024-01-10''"
    and d2: "isoDate jan2024 (readingTimestamp 1704889800000 ?res2) = ''2024-01-10''"
    unfolding t1 t2 by code_simp+
  have u1: "getUTCHours (readingTimestamp 1704888000000 ?res1) = 12"
    and u2: "getUTCHours (readingTimestamp 1704889800000 ?res2) = 12"
    unfolding t1 t2 by code_simp+
  have "map_of sample_history ''2024-01-10''
          = Some (Daily (setHour (replicate 24 None) 9 (sample_reading 1704877200000)))"
    by (simp add: sample_history_def)
  then have "\<exists>h1. updateHistoricalData jan2024 1704888000000 1704888000000 1704888000000
                    ?res1 sample_history = Inr h1"
    by (intro updateHistoricalData_succeeds) (simp_all add: d1)
  then obtain h1 where h1: "updateHistoricalData jan2024 1704888000000 1704888000000
                    1704888000000 ?res1 sample_history = Inr h1" ..
  from second_append_replaces_slot [OF h1 d1 d2 u1 u2, of 1704889800000 1704889800000] h1
  show ?thesis unfolding t1 t2 by auto
qed

text \<open>
  C10. A call with an empty list of results does not fail (unless the file of today's date
  parses to a value without \<open>hours\<close>, which fails for every list): it writes today's bucket,
  and the slot of the current hour holds a reading with the current instant as timestamp and
  an empty regions map, whatever the slot held before.
\<close>

theorem empty_results_write_empty_reading:
  assumes "\<forall>rs. map_of history (isoDate api now) \<noteq> Some (Recent rs)"
    and "\<forall>rd. map_of history (isoDate api now) \<noteq> Some (Range rd)"
    and "isoDate api now \<noteq> ''recent''" and "isoDate api now \<noteq> ''index''"
  shows "\<exists>h1 hours.
           updateHistoricalData api now nowRecent nowRange [] history = Inr h1
           \<and> map_of h1 (isoDate api now) = Some (Daily hours)
           \<and> getUTCHours now < length hours
           \<and> hours ! getUTCHours now = Some \<lparr>reading_timestamp = now, regions = []\<rparr>"
proof -
  have ts: "readingTimestamp now [] = now" by (simp add: readingTimestamp_def)
  have nr: "newReading now [] = \<lparr>reading_timestamp = now, regions = []\<rparr>"
    by (simp add: newReading_def)
  have "\<exists>h1. updateHistoricalData api now nowRecent nowRange [] history = Inr h1"
    by (rule updateHistoricalData_succeeds) (simp_all add: ts assms)
  then obtain h1
    where h1: "updateHistoricalData api now nowRecent nowRange [] history = Inr h1" ..
  from updateHistoricalData_Inr [OF h1] assms(3,4)
  obtain hours0 where "map_of h1 (isoDate api now)
      = Some (Daily (setHour hours0 (getUTCHours now) \<lparr>reading_timestamp = now, regions = []\<rparr>))"
    by (auto simp: ts nr)
  with h1 setHour_slot [of "getUTCHours now" hours0 "\<lparr>reading_timestamp = now, regions = []\<rparr>"]
  show ?thesis by blast
qed

text \<open>At 09:30 on 2024-01-10 the empty reading replaces the reading of 09:00.\<close>

theorem empty_results_write_empty_reading_witness:
  "map_of sample_history ''2024-01-10''
     = Some (Daily (setHour (replicate 24 None) 9 (sample_reading 1704877200000)))
   \<and> setHour (replicate 24 None) 9 (sample_reading 1704877200000) ! 9
       = Some (sample_reading 1704877200000)
   \<and> (\<exists>h1 hours.
         updateHistoricalData jan2024 1704879000000 1704879000000 1704879000000 []
           sample_history = Inr h1
         \<and> map_of h1 ''2024-01-10'' = Some (Daily hours)
         \<and> hours ! 9 = Some \<lparr>reading_timestamp = 1704879000000, regions = []\<rparr>)"
proof -
  have d: "isoDate jan2024 1704879000000 = ''2024-01-10''" by code_simp
  have u: "getUTCHours 1704879000000 = 9" by code_simp
  have m: "map_of sample_history ''2024-01-10''
     = Some (Daily (setHour (replicate 24 None) 9 (sample_reading 1704877200000)))"
    by (simp add: sample_history_def)
  have a1: "\<forall>rs. map_of sample_history (isoDate jan2024 1704879000000) \<noteq> Some (Recent rs)"
    and a2: "\<forall>rd. map_of sample_history (isoDate jan2024 1704879000000) \<noteq> Some (Range rd)"
    and a3: "isoDate jan2024 1704879000000 \<noteq> ''recent''"
    and a4: "isoDate jan2024 1704879000000 \<noteq> ''index''"
    by (simp_all add: d m)
  from empty_results_write_empty_reading [OF a1 a2 a3 a4, of 1704879000000 1704879000000]
  have "\<exists>h1 hours.
         updateHistoricalData jan2024 1704879000000 1704879000000 1704879000000 []
           sample_history = Inr h1
         \<and> map_of h1 ''2024-01-10'' = Some (Daily hours)
         \<and> hours ! 9 = Some \<lparr>reading_timestamp = 1704879000000, regions = []\<rparr>"
    unfolding d u by blast
  moreover have "setHour (replicate 24 None) 9 (sample_reading 1704877200000) ! 9
       = Some (sample_reading 1704877200000)"
    using setHour_slot [of 9 "replicate 24 None" "sample_reading 1704877200000"] by simp
  ultimately show ?thesis using m by blast
qed


section \<open>The retention sweep is idempotent\<close>

lemma expired_imp_date: "expired api now f \<Longrightarrow> isDateFile f"
  by (simp add: expired_def)

lemma cleanupLoop_eq:
  "cleanupLoop api (now - TWO_YEARS_MS) files history deletedCount keptCount =
     (fold unlink (filter (expired api now) files) history,
      deletedCount + length (filter (expired api now) files),
      keptCount + length (filter (\<lambda>f. isDateFile f \<and> \<not> expired api now f) files))"
  by (induction files arbitrary: history deletedCount keptCount)
     (auto simp: expired_def TWO_YEARS_MS_def split: option.splits)

lemma readdir_fold_unlink:
  "readdir (fold unlink fs history) = filter (\<lambda>f. f \<notin> set fs) (readdir history)"
proof (induction fs arbitrary: history)
  case Nil
  show ?case by simp
next
  case (Cons a fs)
  have "readdir (unlink a history) = filter (\<lambda>f. f \<noteq> a) (readdir history)"
    by (simp add: readdir_def unlink_def delete_keys removeAll_filter_not_eq) metis
  with Cons show ?case by (auto intro: filter_cong)
qed

lemma readdir_swept:
  "readdir (fold unlink (filter (expired api now) (readdir history)) history)
     = filter (\<lambda>f. \<not> expired api now f) (readdir history)"
  unfolding readdir_fold_unlink by (rule filter_cong) auto

lemma readdir_writeFile:
  "readdir (writeFile f c history) =
     (if f \<in> set (readdir history) then readdir history else readdir history @ [f])"
  by (simp add: readdir_def writeFile_def update_keys)

lemma dateFiles_cleanupRange:
  "filter isDateFile (readdir (cleanupRange t history)) = filter isDateFile (readdir history)"
  by (simp add: cleanupRange_def Let_def readdir_writeFile not_date_names)

lemma cleanupRange_idem: "cleanupRange t (cleanupRange t history) = cleanupRange t history"
proof -
  have "cleanupRange t (cleanupRange t history) =
        (let dateFiles = sort (filter isDateFile (readdir history))
         in if dateFiles = [] then cleanupRange t history
            else writeFile ''range'' (Range (rangeData t dateFiles)) (cleanupRange t history))"
    unfolding cleanupRange_def [of t "cleanupRange t history"] dateFiles_cleanupRange ..
  then show ?thesis
    by (simp add: cleanupRange_def Let_def writeFile_def)
qed

lemma cleanup_Some:
  "cleanup api now t (Some history) =
     (Some (if filter isDateFile (readdir history) \<noteq> []
            then cleanupRange t (fold unlink (filter (expired api now) (readdir history)) history)
            else history),
      length (filter (expired api now) (readdir history)))"
proof -
  have e: "filter (expired api now) (readdir history) = []"
    if "filter isDateFile (readdir history) = []"
    using that by (auto simp: filter_empty_conv dest: expired_imp_date)
  have "0 < length (filter (expired api now) (readdir history))
          \<or> 0 < length (filter (\<lambda>f. isDateFile f \<and> \<not> expired api now f) (readdir history))
        \<longleftrightarrow> filter isDateFile (readdir history) \<noteq> []"
    by (auto simp: filter_empty_conv dest: expired_imp_date)
  then show ?thesis
    by (auto simp: cleanup_def cleanupLoop_eq e)
qed

lemma no_expired_left:
  assumes "filter isDateFile ys = filter (\<lambda>f. isDateFile f \<and> \<not> expired api now f) xs"
  shows "filter (expired api now) ys = []"
proof -
  have "filter (expired api now) ys = filter (expired api now) (filter isDateFile ys)"
    unfolding filter_filter by (rule filter_cong) (auto dest: expired_imp_date)
  also have "\<dots> = []"
    unfolding assms by (simp add: filter_empty_conv)
  finally show ?thesis .
qed

text \<open>
  C9. When the sweep has run at an instant, a second run at the same instant deletes nothing
  and leaves the directory as the first run left it. The first run, on an existing
  directory, deletes exactly the expired buckets: the date keys left are those that were not
  expired, and its count of deletions is the number of expired buckets.
\<close>

theorem cleanup_idempotent:
  assumes "cleanup api now t fs = (fs1, deleted1)"
  shows "cleanup api now t fs1 = (fs1, 0)
         \<and> (\<forall>history. fs = Some history \<longrightarrow>
              (\<exists>h1. fs1 = Some h1
                 \<and> filter isDateFile (readdir h1)
                     = filter (\<lambda>f. isDateFile f \<and> \<not> expired api now f) (readdir history)
                 \<and> deleted1 = length (filter (expired api now) (readdir history))))"
proof (cases fs)
  case None
  with assms show ?thesis by (auto simp: cleanup_def)
next
  case (Some history)
  let ?swept = "fold unlink (filter (expired api now) (readdir history)) history"
  let ?h1 = "if filter isDateFile (readdir history) \<noteq> [] then cleanupRange t ?swept else history"
  from assms Some have fs1: "fs1 = Some ?h1"
    and del: "deleted1 = length (filter (expired api now) (readdir history))"
    by (simp_all add: cleanup_Some)
  have swept_dates: "filter isDateFile (readdir ?swept)
        = filter (\<lambda>f. isDateFile f \<and> \<not> expired api now f) (readdir history)"
    unfolding readdir_swept filter_filter by (rule filter_cong) auto
  have dates: "filter isDateFile (readdir ?h1)
        = filter (\<lambda>f. isDateFile f \<and> \<not> expired api now f) (readdir history)"
  proof (cases "filter isDateFile (readdir history) = []")
    case True
    then show ?thesis by (auto simp: filter_empty_conv)
  next
    case False
    then show ?thesis by (simp add: dateFiles_cleanupRange swept_dates)
  qed
  have none: "filter (expired api now) (readdir ?h1) = []"
    using dates by (rule no_expired_left)
  have again: "cleanup api now t (Some ?h1) = (Some ?h1, 0)"
  proof (cases "filter isDateFile (readdir history) = []")
    case True
    then have "filter (expired api now) (readdir history) = []"
      by (auto simp: filter_empty_conv dest: expired_imp_date)
    with True show ?thesis by (simp add: cleanup_Some)
  next
    case False
    show ?thesis
      unfolding cleanup_Some none
      using False by (simp add: cleanupRange_idem)
  qed
  from fs1 del dates again Some show ?thesis by simp
qed

text \<open>The sweep of 2026-01-10 deletes the bucket of 2024-01-05; the second sweep deletes
  nothing.\<close>

theorem cleanup_idempotent_witness:
  "cleanup jan2024 1768003200000 1768003200000 (Some old_history) = (Some swept_history, 1)
   \<and> cleanup jan2024 1768003200000 1768003200000 (Some swept_history) = (Some swept_history, 0)
   \<and> length (filter (expired jan2024 1768003200000) (readdir old_history)) = 1
   \<and> filter (\<lambda>f. isDateFile f \<and> \<not> expired jan2024 1768003200000 f) (readdir old_history)
       = filter isDateFile (readdir swept_history)"
proof -
  have first: "cleanup jan2024 1768003200000 1768003200000 (Some old_history)
               = (Some swept_history, 1)"
    by code_simp
  from cleanup_idempotent [OF first] first show ?thesis by auto
qed

end
